theory Spec2Isabelle
  imports Main
begin

section \<open>The cassette (vcr/cassette.py)\<close>

text \<open>
  A cassette owns the list of recorded (request, response) pairs, a counter of how often
  each index has been played, a dirty flag and a rewound flag.  Requests, responses and
  storage paths are type parameters: the cassette only stores them, hands them to the
  configured hooks and compares requests with the configured matchers.

  The hook \<open>before_record_request\<close> is called with a request object.  It returns a
  request, or a falsy value (Python's \<open>None\<close>) to suppress the request, and it may
  change the object it was given (the filters of this package do, and return it).  Its
  model returns a pair: what the call returns, and the state of the argument after the
  call.  A hook that leaves its argument alone returns it as the second component.  A
  request handed to a method of the cassette is an object of its own, not one of the
  stored ones.

  \<open>match_on\<close> is the tuple of comparators, each a predicate on two requests.
  \<open>play_counts\<close> is a \<open>Counter\<close>: a missing key counts as zero.
\<close>

datatype python_error = KeyError | AttributeError | UnicodeDecodeError | ValueError

datatype ('p, 'req) cassette_error =
    UnhandledHTTPRequestError 'p 'req
  | Raised python_error

datatype storage_error = IOError | OtherStorageError

record ('p, 'req, 'resp) config =
  cfg_path :: 'p
  cfg_record_mode :: string
  cfg_match_on :: "('req \<Rightarrow> 'req \<Rightarrow> bool) list"
  cfg_before_record_request :: "('req \<Rightarrow> 'req option \<times> 'req) option"
  cfg_before_record_response :: "('resp \<Rightarrow> 'resp) option"
  cfg_inject :: bool

record ('p, 'req, 'resp) cassette =
  path :: 'p
  record_mode :: string
  match_on :: "('req \<Rightarrow> 'req \<Rightarrow> bool) list"
  before_record_request :: "'req \<Rightarrow> 'req option \<times> 'req"
  before_record_response :: "'resp \<Rightarrow> 'resp"
  inject :: bool
  data :: "('req \<times> 'resp) list"
  play_counts :: "nat \<Rightarrow> nat"
  dirty :: bool
  rewound :: bool

text \<open>\<open>Cassette.__init__\<close>: a hook that is not given defaults to the identity.\<close>

definition init :: "('p, 'req, 'resp) config \<Rightarrow> ('p, 'req, 'resp) cassette" where
  "init cfg =
     \<lparr> path = cfg_path cfg,
       record_mode = cfg_record_mode cfg,
       match_on = cfg_match_on cfg,
       before_record_request =
         (case cfg_before_record_request cfg of
            None \<Rightarrow> (\<lambda>x. (Some x, x))
          | Some f \<Rightarrow> f),
       before_record_response =
         (case cfg_before_record_response cfg of None \<Rightarrow> (\<lambda>x. x) | Some g \<Rightarrow> g),
       inject = cfg_inject cfg,
       data = [],
       play_counts = (\<lambda>_. 0),
       dirty = False,
       rewound = False \<rparr>"

definition requests :: "('p, 'req, 'resp) cassette \<Rightarrow> 'req list" where
  "requests c = map fst (data c)"

definition responses :: "('p, 'req, 'resp) cassette \<Rightarrow> 'resp list" where
  "responses c = map snd (data c)"

definition write_protected :: "('p, 'req, 'resp) cassette \<Rightarrow> bool" where
  "write_protected c \<longleftrightarrow>
     (rewound c \<and> record_mode c = ''once'') \<or> record_mode c = ''none''"

text \<open>\<open>Cassette.append\<close> (the name \<open>append\<close> belongs to lists in HOL).\<close>

definition append_cassette ::
  "('p, 'req, 'resp) cassette \<Rightarrow> 'req \<Rightarrow> 'resp \<Rightarrow> ('p, 'req, 'resp) cassette" where
  "append_cassette c request response =
     (case fst (before_record_request c request) of
        None \<Rightarrow> c
      | Some request' \<Rightarrow>
          c\<lparr> data := data c @ [(request', before_record_response c response)],
             dirty := True \<rparr>)"

definition filter_request :: "('p, 'req, 'resp) cassette \<Rightarrow> 'req \<Rightarrow> 'req option" where
  "filter_request c request = fst (before_record_request c request)"

text \<open>
  Modelled from the spec: \<open>requests_match\<close> of the module \<open>matchers\<close>, which is not in
  the files modelled here.  It is true iff all configured comparators agree.  Each
  comparator reads an attribute of both requests, so on \<open>None\<close> for the first request
  (what a suppressing hook returned) the first comparator raises \<open>AttributeError\<close>; with
  no comparator configured nothing is read and the result is true.
\<close>

definition requests_match ::
  "'req option \<Rightarrow> 'req \<Rightarrow> ('req \<Rightarrow> 'req \<Rightarrow> bool) list \<Rightarrow> python_error + bool" where
  "requests_match r1 r2 matchers =
     (case r1 of
        Some r \<Rightarrow> Inr (list_all (\<lambda>m. m r r2) matchers)
      | None \<Rightarrow> if matchers = [] then Inr True else Inl AttributeError)"

text \<open>
  \<open>Cassette._responses\<close>: the generator of the (index, response) pairs whose stored
  request matches the filtered request, in the order of \<open>data\<close>.  A generator is
  consumed item by item, and a comparison that raises ends it: its model is the list of
  the items it yields before that, and the exception (if any) that the consumer meets
  when it asks for one more.
\<close>

fun responses_from ::
  "('req \<Rightarrow> 'req \<Rightarrow> bool) list \<Rightarrow> 'req option \<Rightarrow> (nat \<times> 'req \<times> 'resp) list \<Rightarrow>
     (nat \<times> 'resp) list \<times> python_error option" where
  "responses_from matchers request [] = ([], None)"
| "responses_from matchers request ((index, stored_request, response) # rest) =
     (case requests_match request stored_request matchers of
        Inl e \<Rightarrow> ([], Some e)
      | Inr matched \<Rightarrow>
          (case responses_from matchers request rest of
             (items, raised) \<Rightarrow>
               (if matched then (index, response) # items else items, raised)))"

definition responses' ::
  "('p, 'req, 'resp) cassette \<Rightarrow> 'req \<Rightarrow> (nat \<times> 'resp) list \<times> python_error option" where
  "responses' c request =
     (let request' = fst (before_record_request c request)
      in responses_from (match_on c) request' (enumerate 0 (data c)))"

text \<open>
  The loop shared by \<open>play_response\<close> and \<open>__contains__\<close>: the first pair of the
  generator whose play counter is zero.
\<close>

fun first_unplayed :: "(nat \<Rightarrow> nat) \<Rightarrow> (nat \<times> 'resp) list \<Rightarrow> (nat \<times> 'resp) option" where
  "first_unplayed pc [] = None"
| "first_unplayed pc ((index, response) # rest) =
     (if pc index = 0 then Some (index, response) else first_unplayed pc rest)"

text \<open>\<open>Cassette.__contains__\<close>.\<close>

definition contains :: "('p, 'req, 'resp) cassette \<Rightarrow> 'req \<Rightarrow> python_error + bool" where
  "contains c request =
     (case responses' c request of
        (items, raised) \<Rightarrow>
          (case first_unplayed (play_counts c) items of
             Some _ \<Rightarrow> Inr True
           | None \<Rightarrow> (case raised of Some e \<Rightarrow> Inl e | None \<Rightarrow> Inr False)))"

text \<open>
  \<open>Cassette.can_play_response_for\<close>: the request is filtered here, and the filtered
  request is handed to \<open>__contains__\<close>, whose \<open>_responses\<close> filters what it is given.
\<close>

definition can_play_response_for ::
  "('p, 'req, 'resp) cassette \<Rightarrow> 'req \<Rightarrow> python_error + bool" where
  "can_play_response_for c request =
     (case fst (before_record_request c request) of
        None \<Rightarrow> Inr False
      | Some request' \<Rightarrow>
          (case contains c request' of
             Inl e \<Rightarrow> Inl e
           | Inr found \<Rightarrow> Inr (found \<and> record_mode c \<noteq> ''all'' \<and> rewound c)))"

text \<open>
  \<open>Cassette.play_response\<close>: the result and the cassette afterwards.  The error is
  formatted from the path and the object that was passed in, which the hook has seen by
  then.
\<close>

definition play_response ::
  "('p, 'req, 'resp) cassette \<Rightarrow> 'req \<Rightarrow>
     (('p, 'req) cassette_error + 'resp) \<times> ('p, 'req, 'resp) cassette" where
  "play_response c request =
     (case responses' c request of
        (items, raised) \<Rightarrow>
          (case first_unplayed (play_counts c) items of
             Some (index, response) \<Rightarrow>
               (Inr response,
                c\<lparr> play_counts := (play_counts c)(index := play_counts c index + 1) \<rparr>)
           | None \<Rightarrow>
               (case raised of
                  Some e \<Rightarrow> (Inl (Raised e), c)
                | None \<Rightarrow>
                    (Inl (UnhandledHTTPRequestError (path c)
                            (snd (before_record_request c request))), c))))"

text \<open>\<open>Cassette.responses_of\<close>: every matching response, played or not.\<close>

definition responses_of ::
  "('p, 'req, 'resp) cassette \<Rightarrow> 'req \<Rightarrow> ('p, 'req) cassette_error + 'resp list" where
  "responses_of c request =
     (case responses' c request of
        (items, raised) \<Rightarrow>
          (case raised of
             Some e \<Rightarrow> Inl (Raised e)
           | None \<Rightarrow>
               if map snd items \<noteq> [] then Inr (map snd items)
               else Inl (UnhandledHTTPRequestError (path c)
                           (snd (before_record_request c request)))))"

text \<open>
  \<open>Cassette._save\<close>: what is handed to \<open>save_cassette\<close> (if anything) and the cassette
  afterwards.
\<close>

definition as_dict :: "('p, 'req, 'resp) cassette \<Rightarrow> 'req list \<times> 'resp list" where
  "as_dict c = (requests c, responses c)"

definition save' ::
  "bool \<Rightarrow> ('p, 'req, 'resp) cassette \<Rightarrow>
     ('p \<times> 'req list \<times> 'resp list) option \<times> ('p, 'req, 'resp) cassette" where
  "save' force c =
     (if force \<or> dirty c then (Some (path c, as_dict c), c\<lparr> dirty := False \<rparr>)
      else (None, c))"

text \<open>
  \<open>Cassette._load\<close>.  The first argument is what \<open>load_cassette\<close> of the module
  \<open>persist\<close> did for the cassette's path: it raised, or it returned the stored requests
  and responses.  An \<open>IOError\<close> is swallowed; any other exception leaves the method
  before the first \<open>append\<close>.
\<close>

fun append_all ::
  "('p, 'req, 'resp) cassette \<Rightarrow> ('req \<times> 'resp) list \<Rightarrow> ('p, 'req, 'resp) cassette" where
  "append_all c [] = c"
| "append_all c ((request, response) # rest) =
     append_all (append_cassette c request response) rest"

definition load' ::
  "(storage_error + 'req list \<times> 'resp list) \<Rightarrow> ('p, 'req, 'resp) cassette \<Rightarrow>
     storage_error option \<times> ('p, 'req, 'resp) cassette" where
  "load' stored c =
     (case stored of
        Inr (reqs, resps) \<Rightarrow>
          (None, (append_all c (zip reqs resps))\<lparr> dirty := False, rewound := True \<rparr>)
      | Inl IOError \<Rightarrow> (None, c)
      | Inl e \<Rightarrow> (Some e, c))"

text \<open>\<open>Cassette.load\<close>, the class method: construct, then \<open>_load\<close>.\<close>

definition load ::
  "('p \<Rightarrow> storage_error + 'req list \<times> 'resp list) \<Rightarrow> ('p, 'req, 'resp) config \<Rightarrow>
     storage_error + ('p, 'req, 'resp) cassette" where
  "load load_cassette cfg =
     (let new_cassette = init cfg
      in case load' (load_cassette (path new_cassette)) new_cassette of
           (None, c) \<Rightarrow> Inr c
         | (Some e, c) \<Rightarrow> Inl e)"

subsection \<open>Sequences of operations on one cassette\<close>

text \<open>
  The operations a caller can apply to a cassette it holds.  \<open>Load\<close> carries what the
  storage read did at that moment.  An operation that raises leaves the cassette to the
  caller as it was when the exception left the method.
\<close>

datatype ('req, 'resp) operation =
    Append 'req 'resp
  | PlayResponse 'req
  | ResponsesOf 'req
  | CanPlayResponseFor 'req
  | Contains 'req
  | Save bool
  | Load "storage_error + 'req list \<times> 'resp list"

fun step ::
  "('p, 'req, 'resp) cassette \<Rightarrow> ('req, 'resp) operation \<Rightarrow> ('p, 'req, 'resp) cassette" where
  "step c (Append request response) = append_cassette c request response"
| "step c (PlayResponse request) = snd (play_response c request)"
| "step c (ResponsesOf request) = c"
| "step c (CanPlayResponseFor request) = c"
| "step c (Contains request) = c"
| "step c (Save force) = snd (save' force c)"
| "step c (Load stored) = snd (load' stored c)"

fun run ::
  "('p, 'req, 'resp) cassette \<Rightarrow> ('req, 'resp) operation list \<Rightarrow> ('p, 'req, 'resp) cassette" where
  "run c [] = c"
| "run c (operation # rest) = run (step c operation) rest"

section \<open>The filters (vcr/filters.py)\<close>

text \<open>
  A request has a method, a URI, a body and headers.  Byte strings and text are
  \<open>string\<close>s.  The body is a byte string, a \<open>BytesIO\<close> stream or \<open>None\<close>.  The headers
  are a dictionary: an association list, whose keys are distinct in a well-formed
  request.
\<close>

datatype body = Bytes string | BytesIO string | NoBody

record request =
  "method" :: string
  uri :: string
  body :: body
  headers :: "(string \<times> string) list"

text \<open>
  What the filters call outside this package is a parameter:
  \<^item> \<open>request_query\<close>: the property \<open>Request.query\<close>, the parsed query of a URI;
  \<^item> \<open>urlparse\<close>, \<open>urlencode\<close>, \<open>urlunparse\<close>: of \<open>urllib.parse\<close>; the parts of a URI
    are a list, the query string at index 4;
  \<^item> \<open>lower_other\<close>: what \<open>str.lower\<close> does beyond the letters A to Z (see below);
  \<^item> \<open>utf8_decode\<close>: \<open>bytes.decode('utf-8')\<close>, which may raise;
  \<^item> \<open>json_loads b\<close>: \<open>json.loads(b.decode('utf-8'))\<close>, which may raise;
  \<^item> \<open>json_dumps j\<close>: \<open>json.dumps(j).encode('utf-8')\<close>.
  A JSON document is an object (a dictionary from names to values) or some other value.
\<close>

datatype 'v json = JObject "(string \<times> 'v) list" | JOther 'v

record 'v library =
  request_query :: "string \<Rightarrow> (string \<times> string) list"
  urlparse :: "string \<Rightarrow> string list"
  urlencode :: "(string \<times> string) list \<Rightarrow> string"
  urlunparse :: "string list \<Rightarrow> string"
  lower_other :: "string \<Rightarrow> string"
  utf8_decode :: "string \<Rightarrow> python_error + string"
  json_loads :: "string \<Rightarrow> python_error + 'v json"
  json_dumps :: "'v json \<Rightarrow> string"

subsection \<open>remove_headers\<close>



text \<open>\<open>dict.pop(k)\<close> and \<open>del d[k]\<close>: a \<open>KeyError\<close> when the key is absent.\<close>

definition pop :: "string \<Rightarrow> (string \<times> 'a) list \<Rightarrow> python_error + (string \<times> 'a) list" where
  "pop k d =
     (if k \<in> set (map fst d) then Inr (filter (\<lambda>(k', v). k' \<noteq> k) d) else Inl KeyError)"



subsection \<open>remove_query_parameters\<close>

definition remove_query_parameters :: "'v library \<Rightarrow> request \<Rightarrow> string list \<Rightarrow> request" where
  "remove_query_parameters L request query_parameters_to_remove =
     (let query = request_query L (uri request);
          new_query = filter (\<lambda>(k, v). k \<notin> set query_parameters_to_remove) query
      in if length new_query \<noteq> length query then
           (let uri_parts = urlparse L (uri request);
                uri_parts' = uri_parts[4 := urlencode L new_query]
            in request\<lparr> uri := urlunparse L uri_parts' \<rparr>)
         else request)"

subsection \<open>remove_post_data_parameters\<close>

text \<open>\<open>bytes.split\<close>, \<open>bytes.partition\<close> and \<open>bytes.join\<close> for a one-byte separator.\<close>

fun split :: "char \<Rightarrow> string \<Rightarrow> string list" where
  "split sep [] = [[]]"
| "split sep (c # cs) =
     (if c = sep then [] # split sep cs
      else (c # hd (split sep cs)) # tl (split sep cs))"

definition partition_bytes :: "char \<Rightarrow> string \<Rightarrow> string \<times> string \<times> string" where
  "partition_bytes sep p =
     (case dropWhile (\<lambda>c. c \<noteq> sep) p of
        [] \<Rightarrow> (p, [], [])
      | s # v \<Rightarrow> (takeWhile (\<lambda>c. c \<noteq> sep) p, [s], v))"

fun join :: "char \<Rightarrow> string list \<Rightarrow> string" where
  "join sep [] = []"
| "join sep [x] = x"
| "join sep (x # y # ys) = x @ sep # join sep (y # ys)"

text \<open>
  The \<open>OrderedDict\<close> \<open>post_data\<close>: keys in the order of their first insertion, each with
  the list of its values.
\<close>

type_synonym post_data = "(string \<times> string list) list"

fun append_value :: "string \<Rightarrow> string \<Rightarrow> post_data \<Rightarrow> post_data" where
  "append_value k v [] = []"
| "append_value k v ((k', vals) # rest) =
     (if k' = k then (k', vals @ [v]) # rest else (k', vals) # append_value k v rest)"

text \<open>The loop over the partitioned pieces of the body.\<close>

fun collect ::
  "'v library \<Rightarrow> string list \<Rightarrow> (string \<times> string \<times> string) list \<Rightarrow> post_data \<Rightarrow>
     python_error + post_data" where
  "collect L names [] post_data = Inr post_data"
| "collect L names ((k, sep, v) # rest) post_data =
     (if k \<in> set (map fst post_data) then
        collect L names rest (append_value k v post_data)
      else if length k > 0 then
        (case utf8_decode L k of
           Inl e \<Rightarrow> Inl e
         | Inr name \<Rightarrow>
             if name \<notin> set names then collect L names rest (post_data @ [(k, [v])])
             else collect L names rest post_data)
      else collect L names rest post_data)"

definition encode_post_data :: "post_data \<Rightarrow> string" where
  "encode_post_data post_data =
     join CHR ''&''
       (concat (map (\<lambda>(k, vals). map (\<lambda>v. join CHR ''='' [k, v]) vals) post_data))"

text \<open>The loop over the keys of the JSON object.\<close>

fun delete_keys ::
  "string list \<Rightarrow> string list \<Rightarrow> (string \<times> 'v) list \<Rightarrow> python_error + (string \<times> 'v) list" where
  "delete_keys [] names json_data = Inr json_data"
| "delete_keys (k # ks) names json_data =
     (if k \<in> set names then
        (case pop k json_data of
           Inl e \<Rightarrow> Inl e
         | Inr json_data' \<Rightarrow> delete_keys ks names json_data')
      else delete_keys ks names json_data)"

definition remove_post_data_parameters ::
  "'v library \<Rightarrow> request \<Rightarrow> string list \<Rightarrow> python_error + request" where
  "remove_post_data_parameters L request post_data_parameters_to_remove =
     (if method request = ''POST'' \<and> (case body request of BytesIO _ \<Rightarrow> False | _ \<Rightarrow> True) then
        (if map_of (headers request) ''Content-Type'' = Some ''application/json'' then
           (case body request of
              Bytes b \<Rightarrow>
                (case json_loads L b of
                   Inl e \<Rightarrow> Inl e
                 | Inr (JOther _) \<Rightarrow> Inl AttributeError
                 | Inr (JObject json_data) \<Rightarrow>
                     (case delete_keys (map fst json_data) post_data_parameters_to_remove
                             json_data of
                        Inl e \<Rightarrow> Inl e
                      | Inr json_data' \<Rightarrow>
                          Inr (request\<lparr> body := Bytes (json_dumps L (JObject json_data')) \<rparr>)))
            | _ \<Rightarrow> Inl AttributeError)
         else
           (case body request of
              Bytes b \<Rightarrow>
                (case collect L post_data_parameters_to_remove
                        (map (partition_bytes CHR ''='') (split CHR ''&'' b)) [] of
                   Inl e \<Rightarrow> Inl e
                 | Inr post_data \<Rightarrow> Inr (request\<lparr> body := Bytes (encode_post_data post_data) \<rparr>))
            | _ \<Rightarrow> Inl AttributeError))
      else Inr request)"

section \<open>Vocabulary for the properties\<close>







text \<open>
  The form-encoded body as the loop sees it, the keys the loop keeps, and the key and value
  pairs an \<open>OrderedDict\<close> of the loop stands for.
\<close>

definition pieces :: "string \<Rightarrow> (string \<times> string \<times> string) list" where
  "pieces b = map (partition_bytes CHR ''='') (split CHR ''&'' b)"

definition keep :: "'v library \<Rightarrow> string list \<Rightarrow> string \<Rightarrow> bool" where
  "keep L names k \<longleftrightarrow>
     k \<noteq> [] \<and> (case utf8_decode L k of Inl e \<Rightarrow> False | Inr name \<Rightarrow> name \<notin> set names)"

definition pairs_of :: "post_data \<Rightarrow> (string \<times> string) list" where
  "pairs_of post_data = concat (map (\<lambda>(k, vals). map (Pair k) vals) post_data)"



section \<open>Concrete inputs\<close>

subsection \<open>Cassettes\<close>

text \<open>
  Modelled from the spec: the comparators \<open>uri\<close> and \<open>method\<close> of the module \<open>matchers\<close>
  (not in the files modelled here), which are the default \<open>match_on\<close> of the
  constructor: each compares one attribute of the two requests.
\<close>

definition match_uri :: "request \<Rightarrow> request \<Rightarrow> bool" where
  "match_uri r1 r2 \<longleftrightarrow> uri r1 = uri r2"

definition match_method :: "request \<Rightarrow> request \<Rightarrow> bool" where
  "match_method r1 r2 \<longleftrightarrow> method r1 = method r2"

definition get :: "string \<Rightarrow> request" where
  "get u = \<lparr> method = ''GET'', uri = u, body = NoBody, headers = [] \<rparr>"

definition example_config :: "(string, request, string) config" where
  "example_config =
     \<lparr> cfg_path = ''fixtures/example.yaml'',
       cfg_record_mode = ''once'',
       cfg_match_on = [match_uri, match_method],
       cfg_before_record_request = None,
       cfg_before_record_response = None,
       cfg_inject = False \<rparr>"

text \<open>A cassette loaded from a file of three exchanges, two of them for the same request.\<close>

definition example_cassette :: "(string, request, string) cassette" where
  "example_cassette =
     snd (load' (Inr ([get ''http://a/1'', get ''http://a/2'', get ''http://a/1''],
                      [''first'', ''second'', ''third'']))
            (init example_config))"

text \<open>
  A hook that suppresses every request for the path \<open>/login\<close> of host \<open>a\<close> and leaves
  its argument alone, and a cassette with that hook, loaded from a file of one exchange.
\<close>

definition skip_login :: "request \<Rightarrow> request option \<times> request" where
  "skip_login r = (if uri r = ''http://a/login'' then None else Some r, r)"




text \<open>
  A hook that marks what it has seen: it returns a copy of the request with a query
  parameter appended to the URI.  Applied to its own result it appends the parameter
  again.
\<close>

definition tag_uri :: "request \<Rightarrow> request option \<times> request" where
  "tag_uri r = (Some (r\<lparr> uri := uri r @ ''&seen=1'' \<rparr>), r)"

text \<open>
  A cassette in mode \<open>new_episodes\<close> with that hook, loaded from a file without
  exchanges, that has then recorded one live exchange.
\<close>

definition tagging_cassette :: "(string, request, string) cassette" where
  "tagging_cassette =
     append_cassette
       (snd (load' (Inr ([], []))
          (init (example_config\<lparr> cfg_record_mode := ''new_episodes'',
                                 cfg_before_record_request := Some tag_uri \<rparr>))))
       (get ''http://a/1?x=2'') ''recorded''"

subsection \<open>Libraries and requests\<close>

text \<open>
  An instance of the library parameters that is enough for the URIs and bodies below,
  which contain no escapes and whose query parameters are in sorted order: a URI is cut at
  its first \<open>?\<close>, a query string at \<open>&\<close> and \<open>=\<close> (a parameter with a blank value is
  not reported), and ASCII text decodes to itself.  Beyond A to Z, \<open>str.lower\<close> is
  represented by what it does to the letter E with acute accent on UTF-8 text (the bytes
  C3 89 become C3 A9).
\<close>

definition example_urlparse :: "string \<Rightarrow> string list" where
  "example_urlparse u =
     (case partition_bytes CHR ''?'' u of (before, sep, after) \<Rightarrow> [[], [], before, [], after, []])"

definition example_urlunparse :: "string list \<Rightarrow> string" where
  "example_urlunparse parts =
     parts ! 2 @ (if parts ! 4 = [] then [] else CHR ''?'' # parts ! 4)"

definition example_urlencode :: "(string \<times> string) list \<Rightarrow> string" where
  "example_urlencode q = join CHR ''&'' (map (\<lambda>(k, v). join CHR ''='' [k, v]) q)"

definition example_query :: "string \<Rightarrow> (string \<times> string) list" where
  "example_query u =
     map (\<lambda>(k, sep, v). (k, v))
       (filter (\<lambda>(k, sep, v). v \<noteq> []) (pieces (example_urlparse u ! 4)))"

fun fold_e_acute :: "string \<Rightarrow> string" where
  "fold_e_acute (a # b # cs) =
     (if a = CHR 0xC3 \<and> b = CHR 0x89 then CHR 0xC3 # CHR 0xA9 # fold_e_acute cs
      else a # fold_e_acute (b # cs))"
| "fold_e_acute cs = cs"

text \<open>
  JSON.  A value is kept as its JSON text.  \<open>json.dumps\<close> writes an object in the
  iteration order of the dictionary, with the separators \<open>", "\<close> and \<open>": "\<close>.
  \<open>json.loads\<close> is a table for the documents that occur, the members in the iteration
  order of the dictionary it returns.  There are two tables: one for dictionaries that
  iterate in insertion order, and one for CPython 2.7, where a dictionary iterates in the
  order of its hash slots: the eight keys \<open>a\<close> to \<open>h\<close>, inserted in this order, iterate
  as \<open>a c b e d g f h\<close> (32 slots), and the five keys \<open>e d g f h\<close>, inserted in this or any
  order, as \<open>h e d g f\<close> (8 slots).
\<close>

fun join_text :: "string \<Rightarrow> string list \<Rightarrow> string" where
  "join_text sep [] = []"
| "join_text sep [x] = x"
| "join_text sep (x # y # ys) = x @ sep @ join_text sep (y # ys)"

definition python_json_dumps :: "string json \<Rightarrow> string" where
  "python_json_dumps j =
     (case j of
        JObject members \<Rightarrow>
          ''{'' @ join_text '', '' (map (\<lambda>(k, v). ''\"'' @ k @ ''\": '' @ v) members) @ ''}''
      | JOther v \<Rightarrow> v)"

definition example_json_loads :: "string \<Rightarrow> python_error + string json" where
  "example_json_loads b =
     (if b = ''{\"a\": 1, \"b\": 2}'' then Inr (JObject [(''a'', ''1''), (''b'', ''2'')])
      else if b = ''{\"a\": 1}'' then Inr (JObject [(''a'', ''1'')])
      else if b = ''{\"b\": 2}'' then Inr (JObject [(''b'', ''2'')])
      else if b = ''{}'' then Inr (JObject [])
      else Inl ValueError)"


definition example_library :: "string library" where
  "example_library =
     \<lparr> request_query = example_query,
       urlparse = example_urlparse,
       urlencode = example_urlencode,
       urlunparse = example_urlunparse,
       lower_other = fold_e_acute,
       utf8_decode = Inr,
       json_loads = example_json_loads,
       json_dumps = python_json_dumps \<rparr>"


definition form_post :: request where
  "form_post =
     \<lparr> method = ''POST'',
       uri = ''http://a/login?token=abc&x=1'',
       body = Bytes ''user=u&password=p&user=v'',
       headers = [(''Authorization'', ''Basic xyz''),
                  (''Content-Type'', ''application/x-www-form-urlencoded'')] \<rparr>"



section \<open>Properties of the cassette\<close>

subsection \<open>Replaying a response\<close>







lemmas example_defs = example_cassette_def example_config_def init_def load'_def
  append_cassette_def get_def match_uri_def match_method_def requests_match_def



subsection \<open>Write protection\<close>

text \<open>
  Claim C2, as amended.  \<open>write_protected\<close> is true exactly when the cassette is rewound
  and its record mode is \<open>once\<close>, or its record mode is \<open>none\<close>.
\<close>

theorem write_protected_iff:
  "write_protected c \<longleftrightarrow> (rewound c \<and> record_mode c = ''once'') \<or> record_mode c = ''none''"
  by (simp add: write_protected_def)

text \<open>
  With \<open>never\<close> in the place of \<open>none\<close> the equivalence fails: a fresh cassette in mode
  \<open>none\<close> is write protected.
\<close>

theorem write_protected_never_counterexample:
  "\<not> (write_protected (init (example_config\<lparr> cfg_record_mode := ''none'' \<rparr>)) \<longleftrightarrow>
        (rewound (init (example_config\<lparr> cfg_record_mode := ''none'' \<rparr>)) \<and>
         record_mode (init (example_config\<lparr> cfg_record_mode := ''none'' \<rparr>)) = ''once'') \<or>
        record_mode (init (example_config\<lparr> cfg_record_mode := ''none'' \<rparr>)) = ''never'')"
  by (simp add: write_protected_def init_def example_config_def)

subsection \<open>Whether a response can be played\<close>

text \<open>
  Claim C3.  \<open>can_play_response_for\<close> should hold when the filtered request matches a
  stored exchange that has not been played, the record mode is not \<open>all\<close> and the
  cassette is rewound.  On the cassette that has just recorded \<open>http://a/1?x=2\<close> through
  the hook \<open>tag_uri\<close> all of that is the case, and \<open>play_response\<close> does replay the
  exchange; \<open>can_play_response_for\<close> is false, because the hook is applied a second time
  to its own result before the comparison.
\<close>

theorem can_play_response_for_filters_twice:
  "fst (before_record_request tagging_cassette (get ''http://a/1?x=2'')) =
     Some (get ''http://a/1?x=2&seen=1'') \<and>
   fst (data tagging_cassette ! 0) = get ''http://a/1?x=2&seen=1'' \<and>
   requests_match (Some (get ''http://a/1?x=2&seen=1'')) (fst (data tagging_cassette ! 0))
     (match_on tagging_cassette) = Inr True \<and>
   play_counts tagging_cassette 0 = 0 \<and>
   record_mode tagging_cassette \<noteq> ''all'' \<and>
   rewound tagging_cassette \<and>
   can_play_response_for tagging_cassette (get ''http://a/1?x=2'') = Inr False \<and>
   fst (play_response tagging_cassette (get ''http://a/1?x=2'')) = Inr ''recorded''"
  by (simp add: tagging_cassette_def tag_uri_def example_defs can_play_response_for_def
        contains_def responses'_def play_response_def)

subsection \<open>Play counters along a run\<close>

lemma first_unplayed_Some_zero:
  "first_unplayed pc xs = Some (index, response) \<Longrightarrow> pc index = 0"
  by (induction pc xs rule: first_unplayed.induct) (auto split: if_splits)

lemma play_counts_append_cassette [simp]:
  "play_counts (append_cassette c request response) = play_counts c"
  by (simp add: append_cassette_def split: option.splits)

lemma play_counts_append_all [simp]:
  "play_counts (append_all c pairs) = play_counts c"
  by (induction c pairs rule: append_all.induct) simp_all

lemma play_counts_load' [simp]: "play_counts (snd (load' stored c)) = play_counts c"
  by (simp add: load'_def split: sum.splits storage_error.splits prod.splits)

lemma play_counts_save' [simp]: "play_counts (snd (save' force c)) = play_counts c"
  by (simp add: save'_def)

lemma play_counts_play_response:
  "play_counts (snd (play_response c request)) i =
     (case first_unplayed (play_counts c) (fst (responses' c request)) of
        Some (index, response) \<Rightarrow> if i = index then 1 else play_counts c i
      | None \<Rightarrow> play_counts c i)"
  by (auto simp: play_response_def dest: first_unplayed_Some_zero
        split: option.splits prod.splits)

lemma step_monotone: "play_counts c i \<le> play_counts (step c operation) i"
  by (cases operation)
     (auto simp: play_counts_play_response dest: first_unplayed_Some_zero split: option.splits)

lemma step_bounded:
  "play_counts c i \<le> 1 \<Longrightarrow> play_counts (step c operation) i \<le> 1"
  by (cases operation) (auto simp: play_counts_play_response split: option.splits)

lemma run_bounded: "play_counts c i \<le> 1 \<Longrightarrow> play_counts (run c operations) i \<le> 1"
proof (induction operations arbitrary: c)
  case Nil
  then show ?case by simp
next
  case (Cons operation rest)
  from Cons.prems have "play_counts (step c operation) i \<le> 1" by (rule step_bounded)
  then have "play_counts (run (step c operation) rest) i \<le> 1" by (rule Cons.IH)
  then show ?case by simp
qed

text \<open>
  Claim C4.  Start from a freshly constructed cassette and apply any sequence of
  operations (append, play_response, responses_of, can_play_response_for, membership
  test, save, load).  Whatever operation comes next, it does not lower the play counter
  of any index, and the counter is at most one afterwards.
\<close>

theorem play_counts_monotone_and_at_most_one:
  "play_counts (run (init cfg) operations) i
     \<le> play_counts (step (run (init cfg) operations) operation) i \<and>
   play_counts (step (run (init cfg) operations) operation) i \<le> 1"
proof
  show "play_counts (run (init cfg) operations) i
     \<le> play_counts (step (run (init cfg) operations) operation) i"
    by (rule step_monotone)
  have "play_counts (init cfg) i \<le> 1" by (simp add: init_def)
  then have "play_counts (run (init cfg) operations) i \<le> 1" by (rule run_bounded)
  then show "play_counts (step (run (init cfg) operations) operation) i \<le> 1"
    by (rule step_bounded)
qed

subsection \<open>Recording an exchange\<close>

text \<open>
  Claim C5.  \<open>append\<close> applies the request hook.  If the hook returns nothing, the
  cassette is unchanged.  Otherwise the response hook is applied, the pair of the two
  results is appended at the end of \<open>data\<close>, and the cassette is dirty.
\<close>

theorem append_cassette_filters_then_appends:
  "(fst (before_record_request c request) = None \<longrightarrow> append_cassette c request response = c) \<and>
   (\<forall>request'. fst (before_record_request c request) = Some request' \<longrightarrow>
      append_cassette c request response =
        c\<lparr> data := data c @ [(request', before_record_response c response)], dirty := True \<rparr>)"
  by (simp add: append_cassette_def)

theorem append_cassette_filters_then_appends_witness:
  "append_cassette (init (example_config\<lparr> cfg_before_record_request := Some skip_login \<rparr>))
     (get ''http://a/login'') ''token'' =
     init (example_config\<lparr> cfg_before_record_request := Some skip_login \<rparr>) \<and>
   append_cassette (init (example_config\<lparr> cfg_before_record_request := Some skip_login \<rparr>))
     (get ''http://a/1'') ''first'' =
     (init (example_config\<lparr> cfg_before_record_request := Some skip_login \<rparr>))
       \<lparr> data := [(get ''http://a/1'', ''first'')], dirty := True \<rparr>"
proof -
  let ?c = "init (example_config\<lparr> cfg_before_record_request := Some skip_login \<rparr>)"
  have f: "before_record_request ?c = skip_login" and g: "before_record_response ?c = (\<lambda>x. x)"
    and d: "data ?c = []"
    by (simp_all add: init_def example_config_def)
  have "append_cassette ?c (get ''http://a/login'') ''token'' = ?c"
    using append_cassette_filters_then_appends [of ?c "get ''http://a/login''" "''token''"]
    by (simp add: f skip_login_def get_def)
  moreover have "append_cassette ?c (get ''http://a/1'') ''first'' =
      ?c\<lparr> data := [(get ''http://a/1'', ''first'')], dirty := True \<rparr>"
    using append_cassette_filters_then_appends [of ?c "get ''http://a/1''" "''first''"]
    by (simp add: f g d skip_login_def get_def)
  ultimately show ?thesis by simp
qed

subsection \<open>Loading from absent storage\<close>

text \<open>
  Claim C6.  When the storage read for the configured path fails with \<open>IOError\<close>,
  \<open>load\<close> does not raise: it returns the freshly constructed cassette, whose exchange
  list is empty, whose play counters are all zero and which is neither dirty nor rewound.
\<close>

theorem load_absent_storage:
  "load_cassette (cfg_path cfg) = Inl IOError \<Longrightarrow>
   load load_cassette cfg = Inr (init cfg) \<and>
   data (init cfg) = [] \<and> play_counts (init cfg) = (\<lambda>_. 0) \<and> \<not> dirty (init cfg) \<and>
   \<not> rewound (init cfg)"
  by (simp add: load_def load'_def init_def)

theorem load_absent_storage_witness:
  "load (\<lambda>_. Inl IOError) example_config = Inr (init example_config) \<and>
   data (init example_config) = [] \<and> play_counts (init example_config) = (\<lambda>_. 0) \<and>
   \<not> dirty (init example_config) \<and> \<not> rewound (init example_config)"
  using load_absent_storage [of "\<lambda>_. Inl IOError" example_config] by simp

section \<open>Properties of the filters\<close>

subsection \<open>Dictionaries, byte strings and the loops over them\<close>






lemma split_not_Nil [simp]: "split c s \<noteq> []"
  by (induction s) auto







lemma fst_append_value [simp]: "map fst (append_value k v od) = map fst od"
  by (induction od) auto


lemma set_pairs_of_append_value:
  "k \<in> fst ` set od \<Longrightarrow> set (pairs_of (append_value k v od)) = insert (k, v) (set (pairs_of od))"
proof (induction od)
  case Nil
  then show ?case by simp
next
  case (Cons x od)
  obtain k' vals where x: "x = (k', vals)" by (cases x)
  show ?case
  proof (cases "k' = k")
    case True
    then show ?thesis by (auto simp: x pairs_of_def)
  next
    case False
    with Cons.prems have "k \<in> fst ` set od" by (auto simp: x)
    from Cons.IH [OF this] False show ?thesis by (auto simp: x pairs_of_def)
  qed
qed


lemma collect_pairs:
  assumes "\<forall>(k, s, v)\<in>set ps. k \<noteq> [] \<longrightarrow> (\<exists>name. utf8_decode L k = Inr name)"
      and "\<forall>k\<in>fst ` set od. keep L names k"
  shows "\<exists>od'. collect L names ps od = Inr od' \<and>
           (\<forall>k\<in>fst ` set od'. keep L names k) \<and>
           set (pairs_of od') =
             set (pairs_of od) \<union> {(k, v). \<exists>s. (k, s, v) \<in> set ps \<and> keep L names k}"
  using assms
proof (induction ps arbitrary: od)
  case Nil
  then show ?case by simp
next
  case (Cons p ps)
  obtain k s v where p: "p = (k, s, v)" by (cases p)
  have dec: "\<forall>(k, s, v)\<in>set ps. k \<noteq> [] \<longrightarrow> (\<exists>name. utf8_decode L k = Inr name)"
    using Cons.prems(1) by auto
  show ?case
  proof (cases "k \<in> set (map fst od)")
    case True
    then have kk: "keep L names k" using Cons.prems(2) by auto
    have inv: "\<forall>k\<in>fst ` set (append_value k v od). keep L names k"
      using Cons.prems(2) by (metis fst_append_value set_map)
    from Cons.IH [OF dec inv] obtain od' where
      c: "collect L names ps (append_value k v od) = Inr od'"
      and k': "\<forall>k\<in>fst ` set od'. keep L names k"
      and s: "set (pairs_of od') = set (pairs_of (append_value k v od)) \<union>
                {(k, v). \<exists>s. (k, s, v) \<in> set ps \<and> keep L names k}"
      by blast
    have "set (pairs_of od') = set (pairs_of od) \<union>
            {(k', v'). \<exists>s'. (k', s', v') \<in> set (p # ps) \<and> keep L names k'}"
      unfolding s using True kk by (auto simp: p set_pairs_of_append_value)
    with c k' True show ?thesis by (auto simp: p)
  next
    case False
    show ?thesis
    proof (cases "keep L names k")
      case True
      then obtain name where n: "utf8_decode L k = Inr name" "name \<notin> set names" "k \<noteq> []"
        by (auto simp: keep_def split: sum.splits)
      have inv: "\<forall>k'\<in>fst ` set (od @ [(k, [v])]). keep L names k'"
        using Cons.prems(2) True by auto
      from Cons.IH [OF dec inv] obtain od' where
        c: "collect L names ps (od @ [(k, [v])]) = Inr od'"
        and k': "\<forall>k\<in>fst ` set od'. keep L names k"
        and s: "set (pairs_of od') = set (pairs_of (od @ [(k, [v])])) \<union>
                  {(k, v). \<exists>s. (k, s, v) \<in> set ps \<and> keep L names k}"
        by blast
      have "set (pairs_of od') = set (pairs_of od) \<union>
              {(k', v'). \<exists>s'. (k', s', v') \<in> set (p # ps) \<and> keep L names k'}"
        unfolding s using True by (auto simp: p pairs_of_def)
      with c k' False n show ?thesis by (auto simp: p)
    next
      case nk: False
      from Cons.IH [OF dec Cons.prems(2)] obtain od' where
        c: "collect L names ps od = Inr od'"
        and k': "\<forall>k\<in>fst ` set od'. keep L names k"
        and s: "set (pairs_of od') = set (pairs_of od) \<union>
                  {(k, v). \<exists>s. (k, s, v) \<in> set ps \<and> keep L names k}"
        by blast
      have "set (pairs_of od') = set (pairs_of od) \<union>
              {(k', v'). \<exists>s'. (k', s', v') \<in> set (p # ps) \<and> keep L names k'}"
        unfolding s using nk by (auto simp: p)
      moreover have "collect L names (p # ps) od = Inr od'"
      proof (cases "k = []")
        case True
        with c False show ?thesis by (simp add: p)
      next
        case ne: False
        with Cons.prems(1) obtain name where n: "utf8_decode L k = Inr name"
          by (auto simp: p)
        with nk ne have "name \<in> set names" by (simp add: keep_def)
        with c False ne n show ?thesis by (simp add: p)
      qed
      ultimately show ?thesis using k' by blast
    qed
  qed
qed









subsection \<open>The three filters\<close>








text \<open>
  Claim C8.  When no parameter of the request's query is named in the removal list,
  \<open>remove_query_parameters\<close> returns the request as it was: the URI is not rebuilt.
\<close>

theorem remove_query_parameters_no_match:
  "\<forall>(k, v)\<in>set (request_query L (uri r)). k \<notin> set names \<Longrightarrow>
   remove_query_parameters L r names = r"
proof -
  assume "\<forall>(k, v)\<in>set (request_query L (uri r)). k \<notin> set names"
  then have "filter (\<lambda>(k, v). k \<notin> set names) (request_query L (uri r)) = request_query L (uri r)"
    by (auto simp: filter_id_conv)
  then show ?thesis by (simp add: remove_query_parameters_def Let_def)
qed

lemma example_query_form_post:
  "request_query example_library (uri form_post) = [(''token'', ''abc''), (''x'', ''1'')]"
  by (simp add: example_library_def form_post_def example_query_def example_urlparse_def
        pieces_def partition_bytes_def)

theorem remove_query_parameters_no_match_witness:
  "remove_query_parameters example_library form_post [''password'', ''y''] = form_post"
proof -
  have "\<forall>(k, v)\<in>set (request_query example_library (uri form_post)).
          k \<notin> set [''password'', ''y'']"
    by (simp add: example_query_form_post)
  then show ?thesis by (rule remove_query_parameters_no_match)
qed







text \<open>
  Claim C10.  For a POST request whose body is a byte string and whose content type is not
  JSON, and whatever the removal list is (the empty list included): if every non-empty key
  of the body decodes, \<open>remove_post_data_parameters\<close> returns the request with a body
  that encodes a dictionary without an empty key, whose key and value pairs are exactly
  the pairs of the old body with a non-empty key that is not listed.  Every parameter with
  an empty key is dropped.
\<close>

theorem remove_post_data_parameters_drops_empty_keys:
  "method r = ''POST'' \<Longrightarrow> body r = Bytes b \<Longrightarrow>
   map_of (headers r) ''Content-Type'' \<noteq> Some ''application/json'' \<Longrightarrow>
   \<forall>(k, sep, v)\<in>set (pieces b). k \<noteq> [] \<longrightarrow> (\<exists>name. utf8_decode L k = Inr name) \<Longrightarrow>
   \<exists>post_data.
     remove_post_data_parameters L r names =
       Inr (r\<lparr> body := Bytes (encode_post_data post_data) \<rparr>) \<and>
     (\<forall>(k, vals)\<in>set post_data. k \<noteq> []) \<and>
     set (pairs_of post_data) =
       {(k, v). \<exists>sep. (k, sep, v) \<in> set (pieces b) \<and> k \<noteq> [] \<and>
                (\<forall>name. utf8_decode L k = Inr name \<longrightarrow> name \<notin> set names)}"
proof -
  assume post: "method r = ''POST''" and b: "body r = Bytes b"
    and form: "map_of (headers r) ''Content-Type'' \<noteq> Some ''application/json''"
    and dec: "\<forall>(k, sep, v)\<in>set (pieces b). k \<noteq> [] \<longrightarrow> (\<exists>name. utf8_decode L k = Inr name)"
  have "\<forall>k\<in>fst ` set ([] :: post_data). keep L names k" by simp
  from collect_pairs [OF dec this] obtain od where
    c: "collect L names (pieces b) [] = Inr od"
    and k: "\<forall>k\<in>fst ` set od. keep L names k"
    and s: "set (pairs_of od) =
              set (pairs_of []) \<union> {(k, v). \<exists>s. (k, s, v) \<in> set (pieces b) \<and> keep L names k}"
    by blast
  have kept: "\<And>k s v. (k, s, v) \<in> set (pieces b) \<Longrightarrow>
      keep L names k \<longleftrightarrow>
      k \<noteq> [] \<and> (\<forall>name. utf8_decode L k = Inr name \<longrightarrow> name \<notin> set names)"
    using dec by (fastforce simp: keep_def split: sum.splits)
  have "remove_post_data_parameters L r names = Inr (r\<lparr> body := Bytes (encode_post_data od) \<rparr>)"
    using post b form c by (simp add: remove_post_data_parameters_def pieces_def)
  moreover have "\<forall>(k, vals)\<in>set od. k \<noteq> []"
    using k by (force simp: keep_def)
  moreover have "set (pairs_of od) =
       {(k, v). \<exists>sep. (k, sep, v) \<in> set (pieces b) \<and> k \<noteq> [] \<and>
                (\<forall>name. utf8_decode L k = Inr name \<longrightarrow> name \<notin> set names)}"
    unfolding s using kept by (auto simp: pairs_of_def)
  ultimately show ?thesis by blast
qed


text \<open>
  The body \<open>=x&a=1\<close> with nothing to remove becomes \<open>a=1\<close>.
\<close>

theorem remove_post_data_parameters_drops_empty_keys_witness:
  "remove_post_data_parameters example_library (form_post\<lparr> body := Bytes ''=x&a=1'' \<rparr>) [] =
     Inr (form_post\<lparr> body := Bytes ''a=1'' \<rparr>) \<and>
   (\<exists>post_data. encode_post_data post_data = ''a=1'' \<and>
                 set (pairs_of post_data) = {(''a'', ''1'')})"
proof -
  let ?r = "form_post\<lparr> body := Bytes ''=x&a=1'' \<rparr>"
  have p: "pieces ''=x&a=1'' = [([], ''='', ''x''), (''a'', ''='', ''1'')]"
    by (simp add: pieces_def partition_bytes_def)
  have "method ?r = ''POST''" "body ?r = Bytes ''=x&a=1''"
    "map_of (headers ?r) ''Content-Type'' \<noteq> Some ''application/json''"
    "\<forall>(k, sep, v)\<in>set (pieces ''=x&a=1'').
       k \<noteq> [] \<longrightarrow> (\<exists>name. utf8_decode example_library k = Inr name)"
    by (simp_all add: form_post_def example_library_def)
  from remove_post_data_parameters_drops_empty_keys [OF this, of "[]"]
  obtain post_data where
    r: "remove_post_data_parameters example_library ?r [] =
          Inr (?r\<lparr> body := Bytes (encode_post_data post_data) \<rparr>)"
    and s: "set (pairs_of post_data) =
       {(k, v). \<exists>sep. (k, sep, v) \<in> set (pieces ''=x&a=1'') \<and> k \<noteq> [] \<and>
                (\<forall>name. utf8_decode example_library k = Inr name \<longrightarrow> name \<notin> set [])}"
    by blast
  have direct: "remove_post_data_parameters example_library ?r [] =
      Inr (form_post\<lparr> body := Bytes ''a=1'' \<rparr>)"
    by (simp add: remove_post_data_parameters_def form_post_def example_library_def
          partition_bytes_def encode_post_data_def)
  from r direct have e: "encode_post_data post_data = ''a=1''"
    by (simp add: form_post_def)
  have "set (pairs_of post_data) = {(''a'', ''1'')}"
    unfolding s p by auto
  with direct e show ?thesis by blast
qed

lemma split_Cons_case:
  "split sep (c # cs) =
     (if c = sep then [] # split sep cs
      else (case split sep cs of [] \<Rightarrow> [[c]] | p # ps \<Rightarrow> (c # p) # ps))"
  by (cases "split sep cs") auto

declare split.simps(2) [simp del]
declare split_Cons_case [simp]



end
